theory Spec2Isabelle
  imports Main "HOL-Library.AList"
begin

section \<open>Tool calls confined to /data (tasksB.py)\<close>

text \<open>
  The module is a set of independent operations (B3, B5, B6, B7, B9, B10) that share one
  path predicate, \<open>B12\<close>, and one helper, \<open>create_directory_if_not_exists\<close>. Python
  strings are modelled as \<open>string\<close>; only the characters \<open>/\<close> and \<open>.\<close> are ever
  inspected. Exceptions are values of \<open>outcome\<close>. Log lines and the message text carried
  by an exception are not part of the model: an exception is identified by its class.
\<close>

subsection \<open>Exceptions\<close>

datatype error =
    SecurityError
  | RequestException
  | HTTPError
  | FileExistsError
  | FileNotFoundError
  | NotADirectoryError
  | IsADirectoryError
  | DatabaseError
  | ImageError
  | ParserError
  | KeyError
  | OtherError

datatype 'a outcome = Return 'a | Raise error

subsection \<open>String methods of the Python library\<close>

text \<open>\<open>s.startswith(p)\<close> and \<open>s.endswith(p)\<close>.\<close>

definition startswith :: "string \<Rightarrow> string \<Rightarrow> bool" where
  "startswith s p = (take (length p) s = p)"

definition endswith :: "string \<Rightarrow> string \<Rightarrow> bool" where
  "endswith s p = (length p \<le> length s \<and> drop (length s - length p) s = p)"

text \<open>\<open>s.split(sep)\<close> for a one-character separator: the result is never empty.\<close>

fun str_split :: "char \<Rightarrow> string \<Rightarrow> string list" where
  "str_split sep [] = [[]]"
| "str_split sep (c # cs) =
     (case str_split sep cs of
        [] \<Rightarrow> [[c]]
      | w # ws \<Rightarrow> if c = sep then [] # w # ws else (c # w) # ws)"

text \<open>\<open>sep.join(comps)\<close>.\<close>

fun str_join :: "string \<Rightarrow> string list \<Rightarrow> string" where
  "str_join sep [] = []"
| "str_join sep [w] = w"
| "str_join sep (w # v # ws) = w @ sep @ str_join sep (v # ws)"

text \<open>\<open>s.rstrip('/')\<close>.\<close>

definition rstrip_sep :: "string \<Rightarrow> string" where
  "rstrip_sep s = rev (dropWhile (\<lambda>c. c = CHR ''/'') (rev s))"

subsection \<open>posixpath.normpath\<close>

text \<open>
  \<open>os.path.normpath\<close> on a POSIX system, following the library's algorithm: an empty path
  is \<open>.\<close>; one leading slash is kept, exactly two are kept, three or more collapse to
  one; the components are scanned left to right, dropping empty ones and \<open>.\<close>, and
  letting \<open>..\<close> cancel the component before it. The loop body is \<open>normpath_step\<close>, the
  list \<open>new_comps\<close> its accumulator.
\<close>

definition initial_slashes :: "string \<Rightarrow> nat" where
  "initial_slashes path =
     (if startswith path ''/'' then
        (if startswith path ''//'' \<and> \<not> startswith path ''///'' then 2 else 1)
      else 0)"

definition normpath_step :: "nat \<Rightarrow> string list \<Rightarrow> string \<Rightarrow> string list" where
  "normpath_step slashes new_comps component =
     (if component = [] \<or> component = ''.'' then new_comps
      else if component \<noteq> ''..'' \<or> (slashes = 0 \<and> new_comps = [])
              \<or> (new_comps \<noteq> [] \<and> last new_comps = ''..'')
        then new_comps @ [component]
      else if new_comps \<noteq> [] then butlast new_comps
      else new_comps)"

definition normpath :: "string \<Rightarrow> string" where
  "normpath path =
     (if path = [] then ''.''
      else
        let comps = foldl (normpath_step (initial_slashes path)) [] (str_split CHR ''/'' path);
            joined = replicate (initial_slashes path) CHR ''/'' @ str_join ''/'' comps
        in if joined = [] then ''.'' else joined)"

text \<open>On a \<open>str\<close> argument the library routine always returns.\<close>

definition os_path_normpath :: "string \<Rightarrow> string outcome" where
  "os_path_normpath path = Return (normpath path)"

subsection \<open>The path guard\<close>

text \<open>
  \<open>B12\<close>, lines 27 to 48. The body after the emptiness test runs inside
  \<open>try ... except Exception: return False\<close>; \<open>B12_with\<close> takes the normaliser as an
  argument so that the handler is a branch of the model whatever the normaliser does.
\<close>

definition B12_with :: "(string \<Rightarrow> string outcome) \<Rightarrow> string \<Rightarrow> bool outcome" where
  "B12_with norm filepath =
     (if filepath = [] then Return False
      else case norm filepath of
             Raise e \<Rightarrow> Return False
           | Return normalized_path \<Rightarrow>
               if \<not> startswith normalized_path ''/data'' then Return False
               else Return True)"

definition B12 :: "string \<Rightarrow> bool outcome" where
  "B12 filepath = B12_with os_path_normpath filepath"

text \<open>
  A normalised path denotes a location inside the directory \<open>/data\<close> when it is \<open>/data\<close>
  itself or continues with a separator after it.
\<close>

definition inside_data :: "string \<Rightarrow> bool" where
  "inside_data p = (normpath p = ''/data'' \<or> startswith (normpath p) ''/data/'')"

subsection \<open>posixpath.dirname\<close>

text \<open>
  \<open>os.path.dirname\<close>: everything up to and including the last slash, with trailing
  slashes stripped unless the head consists of slashes only.
\<close>

definition os_path_dirname :: "string \<Rightarrow> string" where
  "os_path_dirname p =
     (let head = rev (dropWhile (\<lambda>c. c \<noteq> CHR ''/'') (rev p))
      in if head \<noteq> [] \<and> head \<noteq> replicate (length head) CHR ''/'' then rstrip_sep head
         else head)"

subsection \<open>The file system\<close>

text \<open>
  The file system holds directories and regular text files, each under the normalised
  form of its path: a path is resolved lexically, as \<open>normpath\<close> does, and there are no
  symbolic links. The root and the current directory always exist. Permissions, quotas and
  text encoding are outside the model; an operation fails only because of what the file
  system holds.
\<close>

record filesystem =
  dirs :: "string list"
  files :: "(string \<times> string) list"

definition is_dir :: "filesystem \<Rightarrow> string \<Rightarrow> bool" where
  "is_dir fs k = (k = ''/'' \<or> k = ''.'' \<or> k \<in> set (dirs fs))"

definition is_file :: "filesystem \<Rightarrow> string \<Rightarrow> bool" where
  "is_file fs k = (map_of (files fs) k \<noteq> None)"

definition add_dir :: "string \<Rightarrow> filesystem \<Rightarrow> filesystem" where
  "add_dir k fs = (if is_dir fs k then fs else fs\<lparr>dirs := dirs fs @ [k]\<rparr>)"

text \<open>
  The directories on the way to a path, outermost first and ending with the path itself:
  for \<open>/data/a/b\<close> they are \<open>/data\<close>, \<open>/data/a\<close>, \<open>/data/a/b\<close>.
\<close>

definition path_chain :: "string \<Rightarrow> string list" where
  "path_chain name =
     (let k = normpath name;
          comps = filter (\<lambda>c. c \<noteq> []) (str_split CHR ''/'' k)
      in map (\<lambda>n. replicate (initial_slashes k) CHR ''/'' @ str_join ''/'' (take n comps))
             [1..<Suc (length comps)])"

text \<open>
  \<open>os.makedirs(name, exist_ok=...)\<close> as the library documents it: every missing
  directory on the way to \<open>name\<close> is created, outermost first; a regular file on the way
  stops it (\<open>NotADirectoryError\<close>, or \<open>FileExistsError\<close> when the file is \<open>name\<close>
  itself), leaving in place what was created before; an existing leaf directory is an
  error only without \<open>exist_ok\<close>.
\<close>

fun make_chain :: "bool \<Rightarrow> string list \<Rightarrow> filesystem \<Rightarrow> unit outcome \<times> filesystem" where
  "make_chain exist_ok [] fs = (Return (), fs)"
| "make_chain exist_ok (k # ks) fs =
     (if is_file fs k then
        (Raise (if ks = [] then FileExistsError else NotADirectoryError), fs)
      else if ks = [] \<and> \<not> exist_ok \<and> is_dir fs k then (Raise FileExistsError, fs)
      else make_chain exist_ok ks (add_dir k fs))"

definition makedirs_fs :: "string \<Rightarrow> bool \<Rightarrow> filesystem \<Rightarrow> unit outcome \<times> filesystem" where
  "makedirs_fs name exist_ok fs =
     (if name = [] then (Raise FileNotFoundError, fs)
      else make_chain exist_ok (path_chain name) fs)"

text \<open>
  \<open>with open(path, 'w') as file: file.write(content)\<close>: the file is created or truncated
  and receives the content. It fails on a directory, on a path spelled with a trailing
  slash, and when the parent is missing or is a regular file.
\<close>

definition write_text_fs :: "string \<Rightarrow> string \<Rightarrow> filesystem \<Rightarrow> unit outcome \<times> filesystem" where
  "write_text_fs path content fs =
     (let k = normpath path;
          parent = (if os_path_dirname k = [] then ''.'' else os_path_dirname k)
      in if path = [] then (Raise FileNotFoundError, fs)
         else if is_dir fs k \<or> endswith path ''/'' then (Raise IsADirectoryError, fs)
         else if is_file fs parent then (Raise NotADirectoryError, fs)
         else if \<not> is_dir fs parent then (Raise FileNotFoundError, fs)
         else (Return (), fs\<lparr>files := AList.update k content (files fs)\<rparr>))"

text \<open>\<open>with open(path, 'r') as file: file.read()\<close>.\<close>

definition read_text_fs :: "string \<Rightarrow> filesystem \<Rightarrow> string outcome" where
  "read_text_fs path fs =
     (if path = [] then Raise FileNotFoundError
      else if is_dir fs (normpath path) then Raise IsADirectoryError
      else case map_of (files fs) (normpath path) of
             None \<Rightarrow> Raise FileNotFoundError
           | Some content \<Rightarrow> Return content)"

subsection \<open>External collaborators\<close>

text \<open>
  The HTTP client, the database engines, the image codec, the Markdown renderer and the
  CSV parser are libraries outside the module. Each is a field of \<open>env\<close>, a function
  that returns a value or raises, so that every theorem holds whatever they do. The
  contents of a database are kept by the engine, not by the file system of the model.
\<close>

record response =
  status_code :: int
  response_text :: string

datatype engine = SQLite | DuckDB

datatype connection = Connection engine string

datatype sql_value = SqlNull | SqlInt int | SqlText string

type_synonym rows = "sql_value list list"

datatype image = Image nat nat string

text \<open>A cell of a table read from CSV is a number or a string; floating point is left out.\<close>

datatype cell = CellInt int | CellStr string

record dataframe =
  columns :: "string list"
  data :: "cell list list"

record env =
  http_get :: "string \<Rightarrow> nat \<Rightarrow> response outcome"
  db_connect :: "engine \<Rightarrow> string \<Rightarrow> connection outcome"
  db_query :: "connection \<Rightarrow> string \<Rightarrow> rows outcome"
  str_rows :: "rows \<Rightarrow> string"
  image_decode :: "string \<Rightarrow> image outcome"
  image_resize :: "image \<Rightarrow> int \<times> int \<Rightarrow> image outcome"
  image_encode :: "string \<Rightarrow> image \<Rightarrow> string outcome"
  markdown_render :: "string \<Rightarrow> string outcome"
  parse_csv :: "string \<Rightarrow> dataframe outcome"

text \<open>
  \<open>Response.raise_for_status\<close> of the HTTP library raises for the client and server
  error classes, 400 to 599, and for no other status.
\<close>

definition raise_for_status :: "response \<Rightarrow> unit outcome" where
  "raise_for_status r =
     (if 400 \<le> status_code r \<and> status_code r < 600 then Raise HTTPError else Return ())"

subsection \<open>The world and its actions\<close>

text \<open>
  An operation runs in a world: the file system, the connections that are open, and the
  trace of the calls made so far to the network, the database and the file system. A call
  is recorded when it is made, whether it then succeeds or fails.
\<close>

datatype event =
    HttpGet string nat
  | MakeDirs string
  | OpenWrite string
  | OpenRead string
  | DbConnect engine string
  | DbExecute connection string
  | DbClose connection

record world =
  fs :: filesystem
  connections :: "connection list"
  trace :: "event list"

type_synonym 'a io = "world \<Rightarrow> 'a outcome \<times> world"

definition io_return :: "'a \<Rightarrow> 'a io" where
  "io_return x w = (Return x, w)"

definition io_raise :: "error \<Rightarrow> 'a io" where
  "io_raise e w = (Raise e, w)"

definition io_lift :: "'a outcome \<Rightarrow> 'a io" where
  "io_lift r w = (r, w)"

text \<open>Sequencing: an exception in the first action skips the rest.\<close>

definition io_bind :: "'a io \<Rightarrow> ('a \<Rightarrow> 'b io) \<Rightarrow> 'b io" where
  "io_bind m f w =
     (case m w of
        (Return x, w') \<Rightarrow> f x w'
      | (Raise e, w') \<Rightarrow> (Raise e, w'))"

text \<open>\<open>try: body finally: cleanup\<close>, for a cleanup that returns.\<close>

definition io_finally :: "'a io \<Rightarrow> (world \<Rightarrow> world) \<Rightarrow> 'a io" where
  "io_finally body cleanup w = (case body w of (r, w') \<Rightarrow> (r, cleanup w'))"

definition emit :: "event \<Rightarrow> world \<Rightarrow> world" where
  "emit ev w = w\<lparr>trace := trace w @ [ev]\<rparr>"

definition requests_get :: "env \<Rightarrow> string \<Rightarrow> nat \<Rightarrow> response io" where
  "requests_get env url timeout w = (http_get env url timeout, emit (HttpGet url timeout) w)"

definition os_makedirs :: "string \<Rightarrow> bool \<Rightarrow> unit io" where
  "os_makedirs name exist_ok w =
     (case makedirs_fs name exist_ok (fs w) of
        (r, fs') \<Rightarrow> (r, emit (MakeDirs name) (w\<lparr>fs := fs'\<rparr>)))"

definition write_text :: "string \<Rightarrow> string \<Rightarrow> unit io" where
  "write_text path content w =
     (case write_text_fs path content (fs w) of
        (r, fs') \<Rightarrow> (r, emit (OpenWrite path) (w\<lparr>fs := fs'\<rparr>)))"

definition read_text :: "string \<Rightarrow> string io" where
  "read_text path w = (read_text_fs path (fs w), emit (OpenRead path) w)"

definition connect :: "env \<Rightarrow> engine \<Rightarrow> string \<Rightarrow> connection io" where
  "connect env eng db_path w =
     (case db_connect env eng db_path of
        Raise e \<Rightarrow> (Raise e, emit (DbConnect eng db_path) w)
      | Return conn \<Rightarrow>
          (Return conn, emit (DbConnect eng db_path) (w\<lparr>connections := conn # connections w\<rparr>)))"

text \<open>\<open>cur = conn.cursor(); cur.execute(query); result = cur.fetchall()\<close>.\<close>

definition execute_fetchall :: "env \<Rightarrow> connection \<Rightarrow> string \<Rightarrow> rows io" where
  "execute_fetchall env conn query w = (db_query env conn query, emit (DbExecute conn query) w)"

definition close :: "connection \<Rightarrow> world \<Rightarrow> world" where
  "close conn w = emit (DbClose conn) (w\<lparr>connections := remove1 conn (connections w)\<rparr>)"

subsection \<open>The directory ensurer\<close>

text \<open>\<open>create_directory_if_not_exists\<close>, lines 50 to 60.\<close>

definition create_directory_if_not_exists :: "string \<Rightarrow> unit io" where
  "create_directory_if_not_exists filepath =
     io_bind (io_lift (B12 filepath)) (\<lambda>permitted.
       if \<not> permitted then io_raise SecurityError
       else if os_path_dirname filepath \<noteq> [] then os_makedirs (os_path_dirname filepath) True
       else io_return ())"

subsection \<open>The operations\<close>

text \<open>
  Each operation wraps its body in \<open>try ... except Exception: log; raise\<close>. The handler
  re-raises what it caught, so it adds nothing but a log line and has no counterpart here.
\<close>

text \<open>\<open>B3\<close>, lines 62 to 92.\<close>

definition B3 :: "env \<Rightarrow> string \<Rightarrow> string \<Rightarrow> unit io" where
  "B3 env url save_path =
     io_bind (io_lift (B12 save_path)) (\<lambda>permitted.
       if \<not> permitted then io_raise SecurityError
       else
         io_bind (requests_get env url 30) (\<lambda>response.
         io_bind (io_lift (raise_for_status response)) (\<lambda>_.
         io_bind (create_directory_if_not_exists save_path) (\<lambda>_.
         write_text save_path (response_text response)))))"

text \<open>\<open>B5\<close>, lines 94 to 132. The engine is chosen by \<open>db_path.endswith('.db')\<close>.\<close>

definition select_engine :: "string \<Rightarrow> engine" where
  "select_engine db_path = (if endswith db_path ''.db'' then SQLite else DuckDB)"

definition B5 :: "env \<Rightarrow> string \<Rightarrow> string \<Rightarrow> string \<Rightarrow> rows io" where
  "B5 env db_path query output_filename =
     io_bind (io_lift (B12 db_path)) (\<lambda>db_permitted.
       if \<not> db_permitted then io_raise SecurityError
       else
         io_bind (io_lift (B12 output_filename)) (\<lambda>output_permitted.
           if \<not> output_permitted then io_raise SecurityError
           else
             io_bind (connect env (select_engine db_path) db_path) (\<lambda>conn.
               io_finally
                 (io_bind (execute_fetchall env conn query) (\<lambda>result.
                  io_bind (create_directory_if_not_exists output_filename) (\<lambda>_.
                  io_bind (write_text output_filename (str_rows env result)) (\<lambda>_.
                  io_return result))))
                 (close conn))))"

text \<open>\<open>B6\<close>, lines 134 to 162.\<close>

definition B6 :: "env \<Rightarrow> string \<Rightarrow> string \<Rightarrow> unit io" where
  "B6 env url output_filename =
     io_bind (io_lift (B12 output_filename)) (\<lambda>permitted.
       if \<not> permitted then io_raise SecurityError
       else
         io_bind (requests_get env url 30) (\<lambda>response.
         io_bind (io_lift (raise_for_status response)) (\<lambda>_.
         io_bind (create_directory_if_not_exists output_filename) (\<lambda>_.
         write_text output_filename (response_text response)))))"

text \<open>
  \<open>B7\<close>, lines 164 to 192. \<open>Image.open\<close> reads the source file and decodes it;
  \<open>img.save\<close> encodes for the destination and writes the file. A size given as a pair
  is always truthy, so \<open>if resize\<close> tests for \<open>None\<close>.
\<close>

definition image_open :: "env \<Rightarrow> string \<Rightarrow> image io" where
  "image_open env image_path =
     io_bind (read_text image_path) (\<lambda>bytes. io_lift (image_decode env bytes))"

definition image_save :: "env \<Rightarrow> image \<Rightarrow> string \<Rightarrow> unit io" where
  "image_save env img output_path =
     io_bind (io_lift (image_encode env output_path img)) (\<lambda>bytes.
       write_text output_path bytes)"

definition B7 :: "env \<Rightarrow> string \<Rightarrow> string \<Rightarrow> (int \<times> int) option \<Rightarrow> unit io" where
  "B7 env image_path output_path resize =
     io_bind (io_lift (B12 image_path)) (\<lambda>image_permitted.
       if \<not> image_permitted then io_raise SecurityError
       else
         io_bind (io_lift (B12 output_path)) (\<lambda>output_permitted.
           if \<not> output_permitted then io_raise SecurityError
           else
             io_bind (image_open env image_path) (\<lambda>img.
             io_bind (case resize of
                        None \<Rightarrow> io_return img
                      | Some dimensions \<Rightarrow> io_lift (image_resize env img dimensions)) (\<lambda>img'.
             io_bind (create_directory_if_not_exists output_path) (\<lambda>_.
             image_save env img' output_path)))))"

text \<open>\<open>B9\<close>, lines 194 to 225.\<close>

definition B9 :: "env \<Rightarrow> string \<Rightarrow> string \<Rightarrow> unit io" where
  "B9 env md_path output_path =
     io_bind (io_lift (B12 md_path)) (\<lambda>md_permitted.
       if \<not> md_permitted then io_raise SecurityError
       else
         io_bind (io_lift (B12 output_path)) (\<lambda>output_permitted.
           if \<not> output_permitted then io_raise SecurityError
           else
             io_bind (read_text md_path) (\<lambda>md_content.
             io_bind (io_lift (markdown_render env md_content)) (\<lambda>html_content.
             io_bind (create_directory_if_not_exists output_path) (\<lambda>_.
             write_text output_path html_content)))))"

text \<open>
  \<open>B10\<close>, lines 227 to 247. \<open>pd.read_csv\<close> reads the file and parses it into a table;
  \<open>df[filter_column]\<close> raises \<open>KeyError\<close> for a name that is not a column;
  \<open>df[df[filter_column] == filter_value]\<close> keeps the rows whose cell in that column
  equals the value; \<open>to_dict(orient='records')\<close> gives one name-to-value mapping per row.
\<close>

definition read_csv :: "env \<Rightarrow> string \<Rightarrow> dataframe io" where
  "read_csv env csv_path =
     io_bind (read_text csv_path) (\<lambda>content. io_lift (parse_csv env content))"

definition select_rows :: "dataframe \<Rightarrow> string \<Rightarrow> cell \<Rightarrow> dataframe outcome" where
  "select_rows df filter_column filter_value =
     (if filter_column \<notin> set (columns df) then Raise KeyError
      else Return (df\<lparr>data :=
             filter (\<lambda>row. map_of (zip (columns df) row) filter_column = Some filter_value)
                    (data df)\<rparr>))"

definition to_dict_records :: "dataframe \<Rightarrow> (string \<times> cell) list list" where
  "to_dict_records df = map (\<lambda>row. zip (columns df) row) (data df)"

definition B10 :: "env \<Rightarrow> string \<Rightarrow> string \<Rightarrow> cell \<Rightarrow> (string \<times> cell) list list io" where
  "B10 env csv_path filter_column filter_value =
     io_bind (io_lift (B12 csv_path)) (\<lambda>permitted.
       if \<not> permitted then io_raise SecurityError
       else
         io_bind (read_csv env csv_path) (\<lambda>df.
         io_bind (io_lift (select_rows df filter_column filter_value)) (\<lambda>filtered.
         io_return (to_dict_records filtered))))"

subsection \<open>Worlds reached by further calls\<close>

text \<open>
  \<open>steps_from w w'\<close>: the world \<open>w'\<close> has the trace of \<open>w\<close> followed by further calls,
  and the same open connections.
\<close>

definition steps_from :: "world \<Rightarrow> world \<Rightarrow> bool" where
  "steps_from w w' = (connections w' = connections w \<and> (\<exists>evs. trace w' = trace w @ evs))"

subsection \<open>Sample collaborators and worlds\<close>

text \<open>
  A server that answers every request with the given status and body, engines that accept
  every connection and return one row, and a parser that returns a two-row table.
\<close>

definition sample_table :: dataframe where
  "sample_table =
     \<lparr>columns = [''id'', ''name''],
      data = [[CellInt 1, CellStr ''a''], [CellInt 2, CellStr ''b'']]\<rparr>"

definition sample_env :: "int \<Rightarrow> string \<Rightarrow> env" where
  "sample_env status body =
     \<lparr>http_get = (\<lambda>url timeout. Return \<lparr>status_code = status, response_text = body\<rparr>),
      db_connect = (\<lambda>eng db_path. Return (Connection eng db_path)),
      db_query = (\<lambda>conn query. Return [[SqlInt 1, SqlText ''test'']]),
      str_rows = (\<lambda>result. ''[(1, test)]''),
      image_decode = (\<lambda>bytes. Return (Image 100 100 bytes)),
      image_resize = (\<lambda>img dimensions. Return img),
      image_encode = (\<lambda>output_path img. Return ''encoded''),
      markdown_render = (\<lambda>md_content. Return md_content),
      parse_csv = (\<lambda>content. Return sample_table)\<rparr>"

definition empty_world :: world where
  "empty_world = \<lparr>fs = \<lparr>dirs = [], files = []\<rparr>, connections = [], trace = []\<rparr>"

text \<open>A world that already holds the inputs of the examples.\<close>

definition stocked_world :: world where
  "stocked_world =
     \<lparr>fs = \<lparr>dirs = [''/data'', ''/database''],
             files = [(''/data/out.txt'', ''old''), (''/database/x.txt'', ''# Test'')]\<rparr>,
      connections = [],
      trace = []\<rparr>"

section \<open>Properties of the path guard\<close>

lemma normpath_empty: "normpath [] = ''.''"
  by (simp add: normpath_def)

lemma B12_with_returns: "\<exists>b. B12_with norm filepath = Return b"
  by (auto simp add: B12_with_def split: outcome.split)

lemma B12_eq: "B12 filepath = Return (filepath \<noteq> [] \<and> startswith (normpath filepath) ''/data'')"
  by (simp add: B12_def B12_with_def os_path_normpath_def)

lemma B12_cases: "B12 filepath = Return True \<or> B12 filepath = Return False"
  by (auto simp add: B12_eq)

text \<open>
  C1. For every path string, the guard returns true exactly when the normalised path has
  \<open>/data\<close> as a literal prefix; on the empty string it returns false; and it returns a
  boolean, never an exception, even over a normaliser that raises.
\<close>

theorem B12_normalized_prefix:
  "B12 P = Return (startswith (normpath P) ''/data'')
   \<and> B12 [] = Return False
   \<and> (\<forall>norm. \<exists>b. B12_with norm P = Return b)"
proof -
  have "\<not> startswith (normpath []) ''/data''"
    by (simp add: normpath_empty startswith_def)
  then have "B12 P = Return (startswith (normpath P) ''/data'')"
    by (cases "P = []") (simp_all add: B12_eq)
  moreover have "B12 [] = Return False"
    by (simp add: B12_eq)
  ultimately show ?thesis
    using B12_with_returns by blast
qed

theorem B12_normalized_prefix_witness:
  "B12 ''/data/notes/a.txt'' = Return True \<and> B12 ''/data/../etc/passwd'' = Return False"
proof -
  have a: "startswith (normpath ''/data/notes/a.txt'') ''/data'' = True"
    by code_simp
  have b: "startswith (normpath ''/data/../etc/passwd'') ''/data'' = False"
    by code_simp
  from B12_normalized_prefix [of "''/data/notes/a.txt''"]
  have "B12 ''/data/notes/a.txt'' = Return True"
    unfolding a by (rule conjunct1)
  moreover from B12_normalized_prefix [of "''/data/../etc/passwd''"]
  have "B12 ''/data/../etc/passwd'' = Return False"
    unfolding b by (rule conjunct1)
  ultimately show ?thesis by (rule conjI)
qed

text \<open>
  C3. There are paths that the guard accepts although their normalised form is not inside
  the directory \<open>/data\<close>: \<open>/database/x.txt\<close> and \<open>/data-evil/f\<close> are two, because the
  prefix \<open>/data\<close> need not be followed by a separator. Every operation takes such a path
  as its source or destination: B3, B5, B6, B7 and B9 write the file \<open>/data-evil/f\<close>,
  B7, B9 and B10 read \<open>/database/x.txt\<close>, and the directory ensurer creates
  \<open>/data-evil\<close>.
\<close>

theorem guard_accepts_outside_data:
  "(\<exists>p. B12 p = Return True \<and> inside_data p = False)
   \<and> B12 ''/database/x.txt'' = Return True \<and> inside_data ''/database/x.txt'' = False
   \<and> B12 ''/data-evil/f'' = Return True \<and> inside_data ''/data-evil/f'' = False
   \<and> read_text_fs ''/data-evil/f''
         (fs (snd (B3 (sample_env 200 ''X'') ''http://example.com'' ''/data-evil/f'' empty_world)))
       = Return ''X''
   \<and> read_text_fs ''/data-evil/f''
         (fs (snd (B5 (sample_env 200 ''X'') ''/database/app.db'' ''SELECT 1'' ''/data-evil/f''
                     empty_world)))
       = Return ''[(1, test)]''
   \<and> read_text_fs ''/data-evil/f''
         (fs (snd (B6 (sample_env 200 ''X'') ''http://example.com'' ''/data-evil/f'' empty_world)))
       = Return ''X''
   \<and> read_text_fs ''/data-evil/f''
         (fs (snd (B7 (sample_env 200 ''X'') ''/database/x.txt'' ''/data-evil/f'' None
                     stocked_world)))
       = Return ''encoded''
   \<and> read_text_fs ''/data-evil/f''
         (fs (snd (B9 (sample_env 200 ''X'') ''/database/x.txt'' ''/data-evil/f'' stocked_world)))
       = Return ''# Test''
   \<and> fst (B10 (sample_env 200 ''X'') ''/database/x.txt'' ''name'' (CellStr ''b'') stocked_world)
       = Return [[(''id'', CellInt 2), (''name'', CellStr ''b'')]]
   \<and> is_dir (fs (snd (create_directory_if_not_exists ''/data-evil/f'' empty_world)))
         ''/data-evil''"
proof -
  have accepted: "B12 ''/data-evil/f'' = Return True" by code_simp
  have outside: "inside_data ''/data-evil/f'' = False" by code_simp
  have accepted': "B12 ''/database/x.txt'' = Return True" by code_simp
  have outside': "inside_data ''/database/x.txt'' = False" by code_simp
  have b3: "read_text_fs ''/data-evil/f''
         (fs (snd (B3 (sample_env 200 ''X'') ''http://example.com'' ''/data-evil/f'' empty_world)))
       = Return ''X''" by code_simp
  have b5: "read_text_fs ''/data-evil/f''
         (fs (snd (B5 (sample_env 200 ''X'') ''/database/app.db'' ''SELECT 1'' ''/data-evil/f''
                     empty_world)))
       = Return ''[(1, test)]''" by code_simp
  have b6: "read_text_fs ''/data-evil/f''
         (fs (snd (B6 (sample_env 200 ''X'') ''http://example.com'' ''/data-evil/f'' empty_world)))
       = Return ''X''" by code_simp
  have b7: "read_text_fs ''/data-evil/f''
         (fs (snd (B7 (sample_env 200 ''X'') ''/database/x.txt'' ''/data-evil/f'' None
                     stocked_world)))
       = Return ''encoded''" by code_simp
  have b9: "read_text_fs ''/data-evil/f''
         (fs (snd (B9 (sample_env 200 ''X'') ''/database/x.txt'' ''/data-evil/f'' stocked_world)))
       = Return ''# Test''" by code_simp
  have b10: "fst (B10 (sample_env 200 ''X'') ''/database/x.txt'' ''name'' (CellStr ''b'')
                  stocked_world)
       = Return [[(''id'', CellInt 2), (''name'', CellStr ''b'')]]" by code_simp
  have ensurer: "is_dir (fs (snd (create_directory_if_not_exists ''/data-evil/f'' empty_world)))
         ''/data-evil''" by code_simp
  from accepted outside have "\<exists>p. B12 p = Return True \<and> inside_data p = False"
    by blast
  with accepted outside accepted' outside' b3 b5 b6 b7 b9 b10 ensurer show ?thesis
    by simp
qed

theorem guard_accepts_outside_data_witness:
  "B12 ''/data-evil/f'' = Return True \<and> inside_data ''/data-evil/f'' = False"
  using guard_accepts_outside_data by blast

section \<open>Sequencing lemmas\<close>

lemma io_bind_lift_Return: "io_bind (io_lift (Return x)) f w = f x w"
  by (simp add: io_bind_def io_lift_def)

lemma io_bind_lift_Raise: "io_bind (io_lift (Raise e)) f w = (Raise e, w)"
  by (simp add: io_bind_def io_lift_def)

lemma io_bind_Return: "m w = (Return x, w') \<Longrightarrow> io_bind m f w = f x w'"
  by (simp add: io_bind_def)

lemma io_bind_Raise: "m w = (Raise e, w') \<Longrightarrow> io_bind m f w = (Raise e, w')"
  by (simp add: io_bind_def)

lemma guard_rejects:
  "B12 path = Return False \<Longrightarrow>
   io_bind (io_lift (B12 path)) (\<lambda>permitted. if \<not> permitted then io_raise SecurityError else body) w
     = (Raise SecurityError, w)"
  by (simp add: io_bind_lift_Return io_raise_def)

lemma guard_accepts:
  "B12 path = Return True \<Longrightarrow>
   io_bind (io_lift (B12 path)) (\<lambda>permitted. if \<not> permitted then io_raise SecurityError else body) w
     = body w"
  by (simp add: io_bind_lift_Return)

section \<open>The guard in front of every write\<close>

text \<open>
  C2. When the destination path fails the guard, each operation that writes a file (B3, B5,
  B6, B7, B9) raises \<open>SecurityError\<close> and hands back the world it was given: no call to
  the network, the database or the file system has been made (the trace is the same) and
  the file system is unchanged. For B5, B7 and B9 this holds whatever the source path is.
\<close>

theorem rejected_destination_raises_before_io:
  assumes "B12 destination = Return False"
  shows "B3 env url destination w = (Raise SecurityError, w)
       \<and> B5 env db_path query destination w = (Raise SecurityError, w)
       \<and> B6 env url destination w = (Raise SecurityError, w)
       \<and> B7 env image_path destination resize w = (Raise SecurityError, w)
       \<and> B9 env md_path destination w = (Raise SecurityError, w)"
proof -
  have b3: "B3 env url destination w = (Raise SecurityError, w)"
    unfolding B3_def using assms by (rule guard_rejects)
  have b6: "B6 env url destination w = (Raise SecurityError, w)"
    unfolding B6_def using assms by (rule guard_rejects)
  have b5: "B5 env db_path query destination w = (Raise SecurityError, w)"
  proof (cases "B12 db_path = Return True")
    case True
    with assms show ?thesis
      by (simp add: B5_def io_bind_lift_Return io_raise_def)
  next
    case False
    with B12_cases [of db_path] have "B12 db_path = Return False" by simp
    then show ?thesis
      unfolding B5_def by (rule guard_rejects)
  qed
  have b7: "B7 env image_path destination resize w = (Raise SecurityError, w)"
  proof (cases "B12 image_path = Return True")
    case True
    with assms show ?thesis
      by (simp add: B7_def io_bind_lift_Return io_raise_def)
  next
    case False
    with B12_cases [of image_path] have "B12 image_path = Return False" by simp
    then show ?thesis
      unfolding B7_def by (rule guard_rejects)
  qed
  have b9: "B9 env md_path destination w = (Raise SecurityError, w)"
  proof (cases "B12 md_path = Return True")
    case True
    with assms show ?thesis
      by (simp add: B9_def io_bind_lift_Return io_raise_def)
  next
    case False
    with B12_cases [of md_path] have "B12 md_path = Return False" by simp
    then show ?thesis
      unfolding B9_def by (rule guard_rejects)
  qed
  from b3 b5 b6 b7 b9 show ?thesis by simp
qed

theorem rejected_destination_raises_before_io_witness:
  "B12 ''/etc/passwd'' = Return False
   \<and> B3 (sample_env 200 ''X'') ''http://example.com'' ''/etc/passwd'' stocked_world
       = (Raise SecurityError, stocked_world)
   \<and> B5 (sample_env 200 ''X'') ''/data/test.db'' ''SELECT 1'' ''/etc/passwd'' stocked_world
       = (Raise SecurityError, stocked_world)
   \<and> B9 (sample_env 200 ''X'') ''/database/x.txt'' ''/etc/passwd'' stocked_world
       = (Raise SecurityError, stocked_world)"
proof -
  have rejected: "B12 ''/etc/passwd'' = Return False"
    by code_simp
  from rejected_destination_raises_before_io [OF rejected] rejected
  show ?thesis by blast
qed

text \<open>
  C6. B6 behaves exactly as B3 on every URL, path and world: the same outcome, the same
  file system and the same trace of calls afterwards.
\<close>

theorem B6_same_as_B3:
  "B6 env url path w = B3 env url path w"
  by (simp add: B6_def B3_def)

theorem B6_same_as_B3_witness:
  "B6 (sample_env 200 ''X'') ''http://example.com'' ''/data/page.html'' empty_world
     = (Return (),
        \<lparr>fs = \<lparr>dirs = [''/data''], files = [(''/data/page.html'', ''X'')]\<rparr>,
         connections = [],
         trace = [HttpGet ''http://example.com'' 30, MakeDirs ''/data'',
                  OpenWrite ''/data/page.html'']\<rparr>)"
proof -
  have "B3 (sample_env 200 ''X'') ''http://example.com'' ''/data/page.html'' empty_world
     = (Return (),
        \<lparr>fs = \<lparr>dirs = [''/data''], files = [(''/data/page.html'', ''X'')]\<rparr>,
         connections = [],
         trace = [HttpGet ''http://example.com'' 30, MakeDirs ''/data'',
                  OpenWrite ''/data/page.html'']\<rparr>)"
    by code_simp
  then show ?thesis
    by (simp only: B6_same_as_B3)
qed

section \<open>Directory creation\<close>













section \<open>Fetch and save\<close>


text \<open>
  C4, as stated, fails: a status that is not a success but lies outside 400 to 599 does not
  abort the write. With the guard accepting \<open>/data/out.txt\<close> and the server answering
  304, B3 returns normally and the destination, which held \<open>old\<close>, now holds the body.
\<close>

theorem B3_writes_on_status_304:
  "B12 ''/data/out.txt'' = Return True
   \<and> http_get (sample_env 304 ''cached'') ''http://example.com'' 30
       = Return \<lparr>status_code = 304, response_text = ''cached''\<rparr>
   \<and> read_text_fs ''/data/out.txt'' (fs stocked_world) = Return ''old''
   \<and> fst (B3 (sample_env 304 ''cached'') ''http://example.com'' ''/data/out.txt'' stocked_world)
       = Return ()
   \<and> read_text_fs ''/data/out.txt''
         (fs (snd (B3 (sample_env 304 ''cached'') ''http://example.com'' ''/data/out.txt''
                     stocked_world)))
       = Return ''cached''"
  by code_simp

text \<open>
  C4, amended. For a destination the guard accepts, when the GET returns a status from 400
  to 599 (404 for one), B3 raises \<open>HTTPError\<close>, an operation fault, right after the
  request: the only call made is the GET, and the file system is as it was, so the
  destination is neither created nor written.
\<close>

theorem B3_error_status_aborts_write:
  assumes "B12 save_path = Return True"
      and "http_get env url 30 = Return r"
      and "400 \<le> status_code r" and "status_code r < 600"
  shows "B3 env url save_path w = (Raise HTTPError, emit (HttpGet url 30) w)
       \<and> fs (snd (B3 env url save_path w)) = fs w
       \<and> trace (snd (B3 env url save_path w)) = trace w @ [HttpGet url 30]"
proof -
  have "B3 env url save_path w = (Raise HTTPError, emit (HttpGet url 30) w)"
    using assms
    by (simp add: B3_def io_bind_lift_Return io_bind_def requests_get_def raise_for_status_def
        io_lift_def)
  then show ?thesis
    by (simp add: emit_def)
qed

theorem B3_error_status_aborts_write_witness:
  "B3 (sample_env 404 ''Not Found'') ''http://example.com/missing'' ''/data/out.txt'' empty_world
     = (Raise HTTPError, emit (HttpGet ''http://example.com/missing'' 30) empty_world)
   \<and> fs (snd (B3 (sample_env 404 ''Not Found'') ''http://example.com/missing'' ''/data/out.txt''
                 empty_world))
       = \<lparr>dirs = [], files = []\<rparr>"
proof -
  have accepted: "B12 ''/data/out.txt'' = Return True" by code_simp
  have answer: "http_get (sample_env 404 ''Not Found'') ''http://example.com/missing'' 30
       = Return \<lparr>status_code = 404, response_text = ''Not Found''\<rparr>"
    by (simp add: sample_env_def)
  have lower: "400 \<le> status_code \<lparr>status_code = 404, response_text = ''Not Found''\<rparr>"
    by simp
  have upper: "status_code \<lparr>status_code = 404, response_text = ''Not Found''\<rparr> < 600"
    by simp
  from B3_error_status_aborts_write [OF accepted answer lower upper, of empty_world]
  have run: "B3 (sample_env 404 ''Not Found'') ''http://example.com/missing'' ''/data/out.txt''
               empty_world
       = (Raise HTTPError, emit (HttpGet ''http://example.com/missing'' 30) empty_world)"
    and same: "fs (snd (B3 (sample_env 404 ''Not Found'') ''http://example.com/missing''
                          ''/data/out.txt'' empty_world))
       = fs empty_world"
    by blast+
  have "fs empty_world = \<lparr>dirs = [], files = []\<rparr>"
    by (simp add: empty_world_def)
  with run same show ?thesis by simp
qed




section \<open>Query and save\<close>

lemma steps_from_refl: "steps_from w w"
  by (simp add: steps_from_def)

lemma steps_from_trans: "steps_from w w1 \<Longrightarrow> steps_from w1 w2 \<Longrightarrow> steps_from w w2"
  by (auto simp add: steps_from_def)

lemma steps_from_emit: "steps_from w (emit ev (w\<lparr>fs := disk\<rparr>))"
  by (simp add: steps_from_def emit_def)

lemma steps_from_emit_only: "steps_from w (emit ev w)"
  by (simp add: steps_from_def emit_def)

lemma steps_bind:
  assumes "\<And>v. steps_from v (snd (m v))" and "\<And>x v. steps_from v (snd (f x v))"
  shows "steps_from w (snd (io_bind m f w))"
proof (cases "m w")
  case (Pair r w1)
  with assms(1) [of w] have first: "steps_from w w1" by simp
  show ?thesis
  proof (cases r)
    case (Return x)
    with Pair have "io_bind m f w = f x w1" by (simp add: io_bind_def)
    with first assms(2) [of w1 x] show ?thesis
      by (auto intro: steps_from_trans)
  next
    case (Raise e)
    with Pair first show ?thesis by (simp add: io_bind_def)
  qed
qed

lemma steps_lift: "steps_from w (snd (io_lift r w))"
  by (simp add: io_lift_def steps_from_refl)

lemma steps_return: "steps_from w (snd (io_return x w))"
  by (simp add: io_return_def steps_from_refl)

lemma steps_raise: "steps_from w (snd (io_raise e w))"
  by (simp add: io_raise_def steps_from_refl)

lemma steps_os_makedirs: "steps_from w (snd (os_makedirs name exist_ok w))"
  by (simp add: os_makedirs_def steps_from_emit split: prod.split)

lemma steps_write_text: "steps_from w (snd (write_text path content w))"
  by (simp add: write_text_def steps_from_emit split: prod.split)

lemma steps_execute_fetchall: "steps_from w (snd (execute_fetchall env conn query w))"
  by (simp add: execute_fetchall_def steps_from_emit_only)

lemma steps_create_directory: "steps_from w (snd (create_directory_if_not_exists filepath w))"
  unfolding create_directory_if_not_exists_def
  by (rule steps_bind) (simp_all add: steps_lift steps_raise steps_os_makedirs steps_return)

text \<open>
  With both paths accepted and the connection opened, B5 is its \<open>try\<close> body run in the
  world after the connect, followed by the \<open>finally\<close> clause; the body makes further
  calls but opens and closes no connection.
\<close>

lemma B5_run:
  assumes "B12 db_path = Return True" and "B12 output_filename = Return True"
      and "db_connect env (select_engine db_path) db_path = Return conn"
  shows "\<exists>r w2 evs.
           B5 env db_path query output_filename w = (r, close conn w2)
           \<and> io_bind (execute_fetchall env conn query) (\<lambda>result.
               io_bind (create_directory_if_not_exists output_filename) (\<lambda>_.
               io_bind (write_text output_filename (str_rows env result)) (\<lambda>_.
               io_return result)))
                 (emit (DbConnect (select_engine db_path) db_path)
                    (w\<lparr>connections := conn # connections w\<rparr>))
               = (r, w2)
           \<and> connections w2 = conn # connections w
           \<and> trace w2 = trace w @ DbConnect (select_engine db_path) db_path # evs"
proof -
  let ?w1 = "emit (DbConnect (select_engine db_path) db_path)
               (w\<lparr>connections := conn # connections w\<rparr>)"
  let ?body = "io_bind (execute_fetchall env conn query) (\<lambda>result.
           io_bind (create_directory_if_not_exists output_filename) (\<lambda>_.
           io_bind (write_text output_filename (str_rows env result)) (\<lambda>_.
           io_return result)))"
  obtain r w2 where body: "?body ?w1 = (r, w2)"
    by (cases "?body ?w1")
  have "connect env (select_engine db_path) db_path w = (Return conn, ?w1)"
    using assms(3) by (simp add: connect_def)
  then have run: "B5 env db_path query output_filename w = (r, close conn w2)"
    using assms(1,2) body
    by (simp add: B5_def io_bind_lift_Return io_finally_def
        io_bind_Return [where m = "connect env (select_engine db_path) db_path"])
  have "steps_from ?w1 (snd (?body ?w1))"
    by (intro steps_bind steps_execute_fetchall steps_create_directory steps_write_text
        steps_return)
  with body have "steps_from ?w1 w2" by simp
  then obtain evs where "connections w2 = conn # connections w"
    and "trace w2 = trace w @ DbConnect (select_engine db_path) db_path # evs"
    by (auto simp add: steps_from_def emit_def)
  with run body show ?thesis by blast
qed



lemma endswith_iff: "endswith s p = (\<exists>stem. s = stem @ p)"
proof
  assume "endswith s p"
  then have "s = take (length s - length p) s @ p"
    by (metis append_take_drop_id endswith_def)
  then show "\<exists>stem. s = stem @ p" ..
next
  assume "\<exists>stem. s = stem @ p"
  then show "endswith s p"
    by (auto simp add: endswith_def)
qed

text \<open>
  C8. The engine B5 connects to is a function of the database path alone: SQLite when the
  path ends with \<open>.db\<close>, that is, when it is some stem followed by \<open>.db\<close>, and DuckDB for
  every other path. With both paths accepted, the first call B5 makes is the connect to
  that engine, whatever the collaborators, the query, the output path and the world are.
\<close>

theorem B5_engine_by_suffix:
  assumes db_ok: "B12 db_path = Return True" and out_ok: "B12 output_filename = Return True"
  shows "(\<exists>evs. trace (snd (B5 env db_path query output_filename w))
            = trace w
              @ DbConnect (if endswith db_path ''.db'' then SQLite else DuckDB) db_path # evs)
       \<and> endswith db_path ''.db'' = (\<exists>stem. db_path = stem @ ''.db'')
       \<and> (select_engine db_path = SQLite) = endswith db_path ''.db''
       \<and> (select_engine db_path = DuckDB) = (\<not> endswith db_path ''.db'')"
proof -
  have tr: "\<exists>evs. trace (snd (B5 env db_path query output_filename w))
            = trace w @ DbConnect (select_engine db_path) db_path # evs"
  proof (cases "db_connect env (select_engine db_path) db_path")
    case (Raise e)
    then have "connect env (select_engine db_path) db_path w
        = (Raise e, emit (DbConnect (select_engine db_path) db_path) w)"
      by (simp add: connect_def)
    then have "B5 env db_path query output_filename w
        = (Raise e, emit (DbConnect (select_engine db_path) db_path) w)"
      using db_ok out_ok
      by (simp add: B5_def io_bind_lift_Return
          io_bind_Raise [where m = "connect env (select_engine db_path) db_path"])
    then show ?thesis
      by (simp add: emit_def)
  next
    case (Return conn)
    from B5_run [OF db_ok out_ok Return, of query w]
    obtain r w2 evs where "B5 env db_path query output_filename w = (r, close conn w2)"
      and "trace w2 = trace w @ DbConnect (select_engine db_path) db_path # evs"
      by blast
    then show ?thesis
      by (simp add: close_def emit_def)
  qed
  have engine: "select_engine db_path = (if endswith db_path ''.db'' then SQLite else DuckDB)"
    by (simp add: select_engine_def)
  from tr engine endswith_iff [of db_path "''.db''"] show ?thesis
    by simp
qed

theorem B5_engine_by_suffix_witness:
  "(\<exists>evs. trace (snd (B5 (sample_env 200 ''X'') ''/data/test.db'' ''SELECT 1''
                         ''/data/out/r.txt'' empty_world))
          = DbConnect SQLite ''/data/test.db'' # evs)
   \<and> (\<exists>evs. trace (snd (B5 (sample_env 200 ''X'') ''/data/test.duckdb'' ''SELECT 1''
                         ''/data/out/r.txt'' empty_world))
          = DbConnect DuckDB ''/data/test.duckdb'' # evs)
   \<and> (\<exists>evs. trace (snd (B5 (sample_env 200 ''X'') ''/data/test.DB'' ''SELECT 1''
                         ''/data/out/r.txt'' empty_world))
          = DbConnect DuckDB ''/data/test.DB'' # evs)"
proof -
  have out_ok: "B12 ''/data/out/r.txt'' = Return True" by code_simp
  have ok1: "B12 ''/data/test.db'' = Return True" by code_simp
  have ok2: "B12 ''/data/test.duckdb'' = Return True" by code_simp
  have ok3: "B12 ''/data/test.DB'' = Return True" by code_simp
  have s1: "endswith ''/data/test.db'' ''.db'' = True" by code_simp
  have s2: "endswith ''/data/test.duckdb'' ''.db'' = False" by code_simp
  have s3: "endswith ''/data/test.DB'' ''.db'' = False" by code_simp
  have start: "trace empty_world = []"
    by (simp add: empty_world_def)
  from B5_engine_by_suffix [OF ok1 out_ok, of "sample_env 200 ''X''" "''SELECT 1''" empty_world]
  have e1: "\<exists>evs. trace (snd (B5 (sample_env 200 ''X'') ''/data/test.db'' ''SELECT 1''
                         ''/data/out/r.txt'' empty_world))
          = DbConnect SQLite ''/data/test.db'' # evs"
    unfolding s1 start append_Nil if_True by blast
  from B5_engine_by_suffix [OF ok2 out_ok, of "sample_env 200 ''X''" "''SELECT 1''" empty_world]
  have e2: "\<exists>evs. trace (snd (B5 (sample_env 200 ''X'') ''/data/test.duckdb'' ''SELECT 1''
                         ''/data/out/r.txt'' empty_world))
          = DbConnect DuckDB ''/data/test.duckdb'' # evs"
    unfolding s2 start append_Nil if_False by blast
  from B5_engine_by_suffix [OF ok3 out_ok, of "sample_env 200 ''X''" "''SELECT 1''" empty_world]
  have e3: "\<exists>evs. trace (snd (B5 (sample_env 200 ''X'') ''/data/test.DB'' ''SELECT 1''
                         ''/data/out/r.txt'' empty_world))
          = DbConnect DuckDB ''/data/test.DB'' # evs"
    unfolding s3 start append_Nil if_False by blast
  from e1 e2 e3 show ?thesis by blast
qed

section \<open>CSV filter\<close>





end
